theory Spec2Isabelle
  imports Main "HOL-Library.AList" "HOL-Library.Char_ord" "HOL-Library.List_Lexorder"
begin

section \<open>The durable store: rooms and room\_members\<close>

text \<open>
  The code talks to two tables. A row of \<open>rooms\<close> is addressed by the columns
  \<open>id\<close>, \<open>room_name\<close>, \<open>owner\<close> and (in hostElection.ts, listenForMemberLeaves
  and listenForHostChanges only) \<open>host_id\<close>; the row record carries every column the
  code names. A row of \<open>room_members\<close> is the pair \<open>(room_id, user_id)\<close>.
  \<open>rooms\<close> is keyed by \<open>id\<close>. Every store call is one atomic round trip. A call
  can come back with \<open>error\<close> set, and then it has had no effect on the tables: the
  flag \<open>fail\<close> that a call takes in the model says that this happens.
\<close>

type_synonym user_id = string
type_synonym room_id = string

record room_row =
  room_name :: string
  owner :: "user_id option"
  host_id :: "user_id option"

record store =
  rooms :: "(room_id \<times> room_row) list"
  room_members :: "(room_id \<times> user_id) list"

text \<open>JavaScript truthiness of a nullable string: \<open>x || null\<close>, \<open>if (x)\<close>.\<close>

fun truthy :: "string option \<Rightarrow> string option" where
  "truthy None = None"
| "truthy (Some u) = (if u = [] then None else Some u)"

text \<open>\<open>from('rooms').select(..).eq('id', roomId).maybeSingle()\<close>\<close>

definition select_room :: "store \<Rightarrow> room_id \<Rightarrow> room_row option" where
  "select_room st rid = map_of (rooms st) rid"

text \<open>hostElection.ts, getCurrentHost: an error is logged and answered with null.\<close>

definition getCurrentHost :: "bool \<Rightarrow> store \<Rightarrow> room_id \<Rightarrow> user_id option" where
  "getCurrentHost fail st rid =
     (if fail then None
      else case select_room st rid of
             None \<Rightarrow> None
           | Some r \<Rightarrow> truthy (owner r))"

text \<open>
  \<open>from('rooms').update({owner: new}).eq('id', rid).eq('owner', e)\<close> (expected
  \<open>Some e\<close>) or \<open>.is('owner', null)\<close> (expected \<open>None\<close>), with
  \<open>.select('owner').maybeSingle()\<close>: the row comes back only when it was updated.
\<close>

definition update_owner_if ::
  "room_id \<Rightarrow> user_id option \<Rightarrow> user_id option \<Rightarrow> store \<Rightarrow> room_row option \<times> store" where
  "update_owner_if rid expected new st =
     (case select_room st rid of
        None \<Rightarrow> (None, st)
      | Some r \<Rightarrow>
          if owner r = expected
          then (Some (r\<lparr>owner := new\<rparr>),
                st\<lparr>rooms := AList.update rid (r\<lparr>owner := new\<rparr>) (rooms st)\<rparr>)
          else (None, st))"

text \<open>\<open>from('rooms').update({owner: new}).eq('id', rid)\<close>: no condition on the owner.\<close>

definition update_owner :: "room_id \<Rightarrow> user_id option \<Rightarrow> store \<Rightarrow> store" where
  "update_owner rid new st =
     (case select_room st rid of
        None \<Rightarrow> st
      | Some r \<Rightarrow> st\<lparr>rooms := AList.update rid (r\<lparr>owner := new\<rparr>) (rooms st)\<rparr>)"

text \<open>The same two updates on the column \<open>host_id\<close>, as listenForMemberLeaves writes them.\<close>

definition update_host_id_if ::
  "room_id \<Rightarrow> user_id option \<Rightarrow> user_id option \<Rightarrow> store \<Rightarrow> room_row option \<times> store" where
  "update_host_id_if rid expected new st =
     (case select_room st rid of
        None \<Rightarrow> (None, st)
      | Some r \<Rightarrow>
          if host_id r = expected
          then (Some (r\<lparr>host_id := new\<rparr>),
                st\<lparr>rooms := AList.update rid (r\<lparr>host_id := new\<rparr>) (rooms st)\<rparr>)
          else (None, st))"

definition update_host_id :: "room_id \<Rightarrow> user_id option \<Rightarrow> store \<Rightarrow> store" where
  "update_host_id rid new st =
     (case select_room st rid of
        None \<Rightarrow> st
      | Some r \<Rightarrow> st\<lparr>rooms := AList.update rid (r\<lparr>host_id := new\<rparr>) (rooms st)\<rparr>)"

text \<open>
  \<open>from('rooms').insert({id, room_name, owner})\<close>: \<open>id\<close> is the key of the table, so
  the insert is refused (None) when the room exists.
\<close>

definition insert_room :: "room_id \<Rightarrow> string \<Rightarrow> user_id \<Rightarrow> store \<Rightarrow> store option" where
  "insert_room rid name uid st =
     (case select_room st rid of
        Some r \<Rightarrow> None
      | None \<Rightarrow>
          Some (st\<lparr>rooms := AList.update rid
                  \<lparr>room_name = name, owner = Some uid, host_id = None\<rparr> (rooms st)\<rparr>))"

text \<open>\<open>from('room_members').select('user_id').eq('room_id', rid)\<close>\<close>

definition members_of :: "store \<Rightarrow> room_id \<Rightarrow> user_id list" where
  "members_of st rid = map snd (filter (\<lambda>m. fst m = rid) (room_members st))"

text \<open>\<open>... .eq('room_id', rid).eq('user_id', uid).maybeSingle()\<close>, read as \<open>!!memberData\<close>.\<close>

definition is_member :: "store \<Rightarrow> room_id \<Rightarrow> user_id \<Rightarrow> bool" where
  "is_member st rid uid = ((rid, uid) \<in> set (room_members st))"

text \<open>\<open>... .order('user_id', {ascending: true}).limit(1)\<close>, then \<open>rows[0].user_id\<close> or null.\<close>

definition first_member :: "store \<Rightarrow> room_id \<Rightarrow> user_id option" where
  "first_member st rid =
     (case sort (members_of st rid) of [] \<Rightarrow> None | u # us \<Rightarrow> Some u)"

text \<open>\<open>from('room_members').delete().match({room_id: rid, user_id: uid})\<close>\<close>

definition delete_member :: "room_id \<Rightarrow> user_id \<Rightarrow> store \<Rightarrow> store" where
  "delete_member rid uid st =
     st\<lparr>room_members := filter (\<lambda>m. m \<noteq> (rid, uid)) (room_members st)\<rparr>"

section \<open>joinRoom.ts: leaveRoom\<close>

text \<open>
  leaveRoom awaits up to four store calls, and other participants' calls can land between
  them. Each call is one step of a small machine whose control state says which call comes
  next; \<open>fail\<close> is the outcome of the call (\<open>error\<close> set, or the call throwing, which
  the enclosing try/catch turns into a return).
\<close>

datatype leave_pc =
    LV_delete
  | LV_room
  | LV_rows
  | LV_clear
  | LV_promote user_id
  | LV_done

fun leaveRoom_step :: "bool \<Rightarrow> room_id \<Rightarrow> user_id \<Rightarrow> leave_pc \<Rightarrow> store \<Rightarrow> leave_pc \<times> store" where
  "leaveRoom_step fail rid uid LV_delete st =
     (if fail then (LV_done, st) else (LV_room, delete_member rid uid st))"
| "leaveRoom_step fail rid uid LV_room st =
     (if fail then (LV_done, st)
      else case select_room st rid of
             None \<Rightarrow> (LV_done, st)
           | Some r \<Rightarrow> if owner r \<noteq> Some uid then (LV_done, st) else (LV_rows, st))"
| "leaveRoom_step fail rid uid LV_rows st =
     (if fail then (LV_done, st)
      else case truthy (first_member st rid) of
             None \<Rightarrow> (LV_clear, st)
           | Some c \<Rightarrow> (LV_promote c, st))"
| "leaveRoom_step fail rid uid LV_clear st =
     (if fail then (LV_done, st) else (LV_done, update_owner rid None st))"
| "leaveRoom_step fail rid uid (LV_promote c) st =
     (if fail then (LV_done, st)
      else (LV_done, snd (update_owner_if rid (Some uid) (Some c) st)))"
| "leaveRoom_step fail rid uid LV_done st = (LV_done, st)"

fun leave_run :: "bool list \<Rightarrow> room_id \<Rightarrow> user_id \<Rightarrow> leave_pc \<times> store \<Rightarrow> leave_pc \<times> store" where
  "leave_run [] rid uid c = c"
| "leave_run (f # fs) rid uid c = leave_run fs rid uid (leaveRoom_step f rid uid (fst c) (snd c))"

text \<open>
  The call run alone, from its first store call to its return: four steps reach
  \<open>LV_done\<close> from \<open>LV_delete\<close>. \<open>fs\<close> gives the outcome of the calls in order
  (a missing flag is a call that succeeds).
\<close>

definition leaveRoom :: "bool list \<Rightarrow> room_id \<Rightarrow> user_id \<Rightarrow> store \<Rightarrow> store" where
  "leaveRoom fs rid uid st =
     snd (leave_run (take 4 (fs @ replicate 4 False)) rid uid (LV_delete, st))"

fun leave_rank :: "leave_pc \<Rightarrow> nat" where
  "leave_rank LV_delete = 4"
| "leave_rank LV_room = 3"
| "leave_rank LV_rows = 2"
| "leave_rank LV_clear = 1"
| "leave_rank (LV_promote c) = 1"
| "leave_rank LV_done = 0"

section \<open>presence.ts: presence to membership reconciliation\<close>

text \<open>
  \<open>channel.presenceState()\<close> is an object from presence keys to arrays of metas; a meta
  carries \<open>user_id\<close> (possibly missing) and \<open>role\<close>.
\<close>

record presence_meta =
  meta_user_id :: "string option"
  role :: string

type_synonym presence_state = "(string \<times> presence_meta list) list"

text \<open>The loop of joinPresence that fills the set \<open>presentUserIds\<close> (in insertion order).\<close>

fun presentUserIds :: "presence_state \<Rightarrow> user_id list \<Rightarrow> user_id list" where
  "presentUserIds [] seen = seen"
| "presentUserIds ((key, metas) # rest) seen =
     (case metas of
        [] \<Rightarrow> presentUserIds rest seen
      | meta # ms \<Rightarrow>
          (case truthy (meta_user_id meta) of
             None \<Rightarrow> presentUserIds rest seen
           | Some u \<Rightarrow> presentUserIds rest (if u \<in> set seen then seen else seen @ [u])))"

text \<open>
  The outcomes the reconciliation does not decide itself: whether \<open>presenceState()\<close>
  throws (\<open>state_view = None\<close>), whether the member query fails, and for which user the
  delete fails.
\<close>

record reconcile_env =
  state_view :: "presence_state option"
  members_fail :: bool
  delete_fails :: "user_id \<Rightarrow> bool"

text \<open>The loop over \<open>toRemove\<close>: one delete per stale user; a failed delete is logged.\<close>

fun delete_stale :: "(user_id \<Rightarrow> bool) \<Rightarrow> room_id \<Rightarrow> user_id list \<Rightarrow> store \<Rightarrow> store" where
  "delete_stale df rid [] st = st"
| "delete_stale df rid (u # us) st =
     delete_stale df rid us (if df u then st else delete_member rid u st)"

text \<open>
  presence.ts, joinPresence, the try block after the settling delay. The result is the
  list of users for whom a delete was issued, and the store afterwards.
\<close>

definition reconcile ::
  "reconcile_env \<Rightarrow> room_id \<Rightarrow> user_id \<Rightarrow> store \<Rightarrow> user_id list \<times> store" where
  "reconcile env rid userId st =
     (case state_view env of
        None \<Rightarrow> ([], st)
      | Some state \<Rightarrow>
          let present = presentUserIds state [] in
          if length present = 0 \<and> length state = 0 then ([], st)
          else if members_fail env then ([], st)
          else
            let toRemove = filter (\<lambda>u. u \<notin> set present \<and> u \<noteq> userId) (members_of st rid) in
            if length toRemove > 0 \<and> length present > 0
            then (toRemove, delete_stale (delete_fails env) rid toRemove st)
            else ([], st))"

section \<open>hostElection.ts\<close>

subsection \<open>electHost\<close>

text \<open>
  electHost awaits one store call after another; between two of them the calls of other
  participants can reach the store. Each store call is one atomic step, and the control
  state names the call that comes next:
  \<^item> \<open>EL_current\<close>: the first getCurrentHost;
  \<^item> \<open>EL_member c\<close>: the query whether the recorded host \<open>c\<close> is in room\_members
    (on an error \<open>memberData\<close> is null and the host counts as stale);
  \<^item> \<open>EL_stale c\<close>: the update of owner to the caller where owner is still \<open>c\<close>;
  \<^item> \<open>EL_claim\<close>: the update of owner to the caller where owner is null;
  \<^item> \<open>EL_create\<close>: the insert of the room after a failed update;
  \<^item> \<open>EL_exists\<close>: the query whether the room exists, after an update of no row;
  \<^item> \<open>EL_create2\<close>: the insert of the room when it does not exist;
  \<^item> \<open>EL_final\<close>: the last getCurrentHost;
  \<^item> \<open>EL_return b\<close>: the call has returned \<open>b\<close>.
\<close>

datatype elect_pc =
    EL_current
  | EL_member user_id
  | EL_stale user_id
  | EL_claim
  | EL_create
  | EL_exists
  | EL_create2
  | EL_final
  | EL_return bool

text \<open>The name given to a room that electHost creates: \<open>`Room ${roomId.substring(0, 8)}`\<close>.\<close>

definition default_room_name :: "room_id \<Rightarrow> string" where
  "default_room_name rid = ''Room '' @ take 8 rid"

fun electHost_step :: "bool \<Rightarrow> room_id \<Rightarrow> user_id \<Rightarrow> elect_pc \<Rightarrow> store \<Rightarrow> elect_pc \<times> store" where
  "electHost_step fail rid uid EL_current st =
     (case getCurrentHost fail st rid of
        None \<Rightarrow> (EL_claim, st)
      | Some current \<Rightarrow>
          if current = uid then (EL_return True, st) else (EL_member current, st))"
| "electHost_step fail rid uid (EL_member current) st =
     (if \<not> fail \<and> is_member st rid current then (EL_return False, st)
      else (EL_stale current, st))"
| "electHost_step fail rid uid (EL_stale current) st =
     (if fail then (EL_return False, st)
      else case update_owner_if rid (Some current) (Some uid) st of
             (Some r, st') \<Rightarrow> (EL_return (owner r = Some uid), st')
           | (None, st') \<Rightarrow> (EL_return False, st'))"
| "electHost_step fail rid uid EL_claim st =
     (if fail then (EL_create, st)
      else case update_owner_if rid None (Some uid) st of
             (Some r, st') \<Rightarrow>
               if owner r = Some uid then (EL_return True, st') else (EL_exists, st')
           | (None, st') \<Rightarrow> (EL_exists, st'))"
| "electHost_step fail rid uid EL_create st =
     (if fail then (EL_final, st)
      else case insert_room rid (default_room_name rid) uid st of
             None \<Rightarrow> (EL_final, st)
           | Some st' \<Rightarrow> (EL_return True, st'))"
| "electHost_step fail rid uid EL_exists st =
     (if \<not> fail \<and> select_room st rid \<noteq> None then (EL_final, st) else (EL_create2, st))"
| "electHost_step fail rid uid EL_create2 st =
     (if fail then (EL_final, st)
      else case insert_room rid (default_room_name rid) uid st of
             None \<Rightarrow> (EL_final, st)
           | Some st' \<Rightarrow> (EL_return True, st'))"
| "electHost_step fail rid uid EL_final st =
     (EL_return (getCurrentHost fail st rid = Some uid), st)"
| "electHost_step fail rid uid (EL_return b) st = (EL_return b, st)"

fun elect_run :: "bool list \<Rightarrow> room_id \<Rightarrow> user_id \<Rightarrow> elect_pc \<times> store \<Rightarrow> elect_pc \<times> store" where
  "elect_run [] rid uid c = c"
| "elect_run (f # fs) rid uid c = elect_run fs rid uid (electHost_step f rid uid (fst c) (snd c))"

text \<open>
  The call run alone: the longest path makes five store calls. \<open>fs\<close> gives the outcome
  of the calls in order (a missing flag is a call that succeeds).
\<close>

definition electHost :: "bool list \<Rightarrow> room_id \<Rightarrow> user_id \<Rightarrow> store \<Rightarrow> bool \<times> store" where
  "electHost fs rid uid st =
     (case elect_run (take 5 (fs @ replicate 5 False)) rid uid (EL_current, st) of
        (EL_return b, st') \<Rightarrow> (b, st')
      | (p, st') \<Rightarrow> (False, st'))"

text \<open>
  The number of store calls that a call of electHost can still make: every step lowers it,
  so the call returns after five steps at most.
\<close>

fun elect_rank :: "elect_pc \<Rightarrow> nat" where
  "elect_rank EL_current = 5"
| "elect_rank EL_claim = 4"
| "elect_rank EL_exists = 3"
| "elect_rank (EL_member c) = 2"
| "elect_rank EL_create = 2"
| "elect_rank EL_create2 = 2"
| "elect_rank (EL_stale c) = 1"
| "elect_rank EL_final = 1"
| "elect_rank (EL_return b) = 0"

subsection \<open>Two concurrent calls of electHost\<close>

text \<open>
  Two participants \<open>a\<close> and \<open>b\<close> call \<open>electHost(rid, self)\<close>. A schedule is a
  list of pairs: whose store call reaches the store next (\<open>True\<close> for \<open>a\<close>), and
  whether that call fails. A participant that has returned no longer moves.
\<close>

type_synonym race = "store \<times> elect_pc \<times> elect_pc"

fun race_step :: "room_id \<Rightarrow> user_id \<Rightarrow> user_id \<Rightarrow> bool \<times> bool \<Rightarrow> race \<Rightarrow> race" where
  "race_step rid a b (first, fail) (st, pa, pb) =
     (if first
      then (case electHost_step fail rid a pa st of (pa', st') \<Rightarrow> (st', pa', pb))
      else (case electHost_step fail rid b pb st of (pb', st') \<Rightarrow> (st', pa, pb')))"

fun electHost_race :: "room_id \<Rightarrow> user_id \<Rightarrow> user_id \<Rightarrow> (bool \<times> bool) list \<Rightarrow> race \<Rightarrow> race" where
  "electHost_race rid a b [] c = c"
| "electHost_race rid a b (e # es) c = electHost_race rid a b es (race_step rid a b e c)"

text \<open>The owner column of a room, null also when the room does not exist.\<close>

definition owner_of :: "store \<Rightarrow> room_id \<Rightarrow> user_id option" where
  "owner_of st rid = (case select_room st rid of None \<Rightarrow> None | Some r \<Rightarrow> owner r)"

text \<open>
  The invariant of a race in a room that exists, between two members, on a store that
  answers every call: a participant has returned true exactly when it is the owner; the
  stale claim and the inserts are never reached; and whoever is past its own claim sees an
  owner that is set.
\<close>

definition pc_ok :: "room_id \<Rightarrow> (room_id \<times> user_id) list \<Rightarrow> user_id \<Rightarrow> elect_pc \<Rightarrow> store \<Rightarrow> bool" where
  "pc_ok rid ms u p st \<longleftrightarrow>
     (p = EL_return True \<longleftrightarrow> owner_of st rid = Some u) \<and>
     (case p of
        EL_member c \<Rightarrow> (rid, c) \<in> set ms \<and> owner_of st rid \<noteq> None
      | EL_stale c \<Rightarrow> False
      | EL_create \<Rightarrow> False
      | EL_create2 \<Rightarrow> False
      | EL_exists \<Rightarrow> owner_of st rid \<noteq> None
      | EL_final \<Rightarrow> owner_of st rid \<noteq> None
      | EL_return r \<Rightarrow> owner_of st rid \<noteq> None
      | _ \<Rightarrow> True)"

definition race_inv :: "room_id \<Rightarrow> (room_id \<times> user_id) list \<Rightarrow> user_id \<Rightarrow> user_id \<Rightarrow> race \<Rightarrow> bool" where
  "race_inv rid ms a b c \<longleftrightarrow>
     (case c of (st, pa, pb) \<Rightarrow>
        room_members st = ms \<and> select_room st rid \<noteq> None \<and>
        owner_of st rid \<in> {None, Some a, Some b} \<and>
        pc_ok rid ms a pa st \<and> pc_ok rid ms b pb st)"

subsection \<open>transferHost\<close>

text \<open>
  The three store calls of transferHost with their outcomes \<open>f1\<close>, \<open>f2\<close>, \<open>f3\<close>,
  run without another participant in between.
\<close>

definition transferHost ::
  "bool \<Rightarrow> bool \<Rightarrow> bool \<Rightarrow> room_id \<Rightarrow> user_id \<Rightarrow> user_id \<Rightarrow> store \<Rightarrow> bool \<times> store" where
  "transferHost f1 f2 f3 rid fromUserId toUserId st =
     (if getCurrentHost f1 st rid \<noteq> Some fromUserId then (False, st)
      else if f2 then (False, st)
      else if \<not> is_member st rid toUserId then (False, st)
      else if f3 then (False, st)
      else case update_owner_if rid (Some fromUserId) (Some toUserId) st of
             (Some r, st') \<Rightarrow> (owner r = Some toUserId, st')
           | (None, st') \<Rightarrow> (False, st'))"

subsection \<open>listenForMemberLeaves\<close>

text \<open>
  The handler that listenForMemberLeaves registers for a DELETE on room\_members, run on
  one event. \<open>leftUser\<close> is \<open>payload.old?.user_id\<close>. The host is read from the column
  \<open>owner\<close> (getCurrentHost); both updates name the column \<open>host_id\<close>.
\<close>

definition listenForMemberLeaves ::
  "bool \<Rightarrow> bool \<Rightarrow> bool \<Rightarrow> room_id \<Rightarrow> user_id option \<Rightarrow> store \<Rightarrow> store" where
  "listenForMemberLeaves f1 f2 f3 rid leftUser st =
     (case getCurrentHost f1 st rid of
        None \<Rightarrow> st
      | Some currentHost \<Rightarrow>
          if Some currentHost \<noteq> leftUser then st
          else if f2 then st
          else (case truthy (first_member st rid) of
                  None \<Rightarrow> if f3 then st else update_host_id rid None st
                | Some candidate \<Rightarrow>
                    if f3 then st
                    else snd (update_host_id_if rid (Some currentHost) (Some candidate) st)))"

section \<open>signaling.ts and webrtc.ts\<close>

subsection \<open>Data\<close>

datatype ConnectionState =
    idle | offering | answering | connecting | connected | failed | closed

text \<open>\<open>RTCDataChannel.readyState\<close> and \<open>RTCPeerConnection.iceConnectionState\<close>.\<close>

datatype ready_state = rs_connecting | rs_open | rs_closing | rs_closed


datatype signal_type = offer | answer | ice | host_elected

type_synonym candidate = string

text \<open>
  An entry of the map \<open>peerConnections\<close>. \<open>pc\<close> is the handle of the engine session
  (null in the entry that updatePeerState creates), \<open>dc\<close> the readyState of the data
  channel when there is one.
\<close>

record PeerConnection =
  pc :: "nat option"
  dc :: "ready_state option"
  state :: ConnectionState
  retryCount :: nat
  lastError :: "string option"

record signal_message =
  msg_from :: user_id
  msg_to :: user_id
  msg_type :: signal_type
  msg_data :: string

text \<open>
  What the code does to the world outside its own variables, in the order it does it:
  a signal delivered to the bus, an engine session created or closed, a data channel
  created, a candidate handed to a session, a message sent on a peer's channel, the warning
  of updatePeerState for a transition outside its table, its log line for a state written,
  and the redial timer set by the ICE callback.
\<close>

datatype effect =
    Signal user_id signal_type
  | PcCreated user_id nat
  | PcClosed nat
  | DcCreated user_id
  | AddIce nat candidate
  | DcSend user_id
  | Warn ConnectionState ConnectionState user_id
  | StateLog user_id ConnectionState ConnectionState
  | RetryTimer user_id

text \<open>
  The module variables of webrtc.ts, the two of signaling.ts that sendSignal reads
  (\<open>sig_user\<close> is its \<open>myUserId\<close>, \<open>sig_channel\<close> says that its channels are
  set), a counter for session handles, and the effects so far. Both maps are JavaScript
  Maps: insertion-ordered, a set on an existing key keeps its place.
\<close>

record rtc =
  myUserId :: "user_id option"
  isHost :: bool
  currentHostId :: "user_id option"
  autoConnectEnabled :: bool
  roomMembersChannel :: bool
  peerConnections :: "(user_id \<times> PeerConnection) list"
  pendingCandidates :: "(user_id \<times> candidate list) list"
  sig_user :: "user_id option"
  sig_channel :: bool
  next_pc :: nat
  effects :: "effect list"

text \<open>
  What the transport engine and the bus answer during one operation: whether a new
  session is born with signalingState closed; the message of the error that the
  description calls throw, if they do (createOffer in a dial; setRemoteDescription,
  createAnswer and setLocalDescription in handleOffer and handleAnswer); the error of
  setLocalDescription in a dial, if any; the error of the bus send, if any; the candidates
  that addIceCandidate refuses; the error that \<open>dc.send\<close> throws for a peer, if any.
\<close>

record engine =
  signalingClosed :: bool
  negotiate_error :: "string option"
  setLocal_error :: "string option"
  signal_error :: "string option"
  ice_error :: "candidate \<Rightarrow> bool"
  dc_send_error :: "user_id \<Rightarrow> string option"

definition emit :: "effect \<Rightarrow> rtc \<Rightarrow> rtc" where
  "emit e s = s\<lparr>effects := effects s @ [e]\<rparr>"

subsection \<open>signaling.ts: sendSignal\<close>

text \<open>The result of an operation that can throw: the error thrown, if any, and the state.\<close>

definition sendSignal :: "engine \<Rightarrow> user_id \<Rightarrow> signal_type \<Rightarrow> rtc \<Rightarrow> string option \<times> rtc" where
  "sendSignal env to ty s =
     (case sig_user s of
        None \<Rightarrow> (Some ''not authenticated'', s)
      | Some me \<Rightarrow>
          if to = me then (None, s)
          else if ty = host_elected \<and> \<not> sig_channel s
          then (Some ''room channel not initialized'', s)
          else (case signal_error env of
                  Some e \<Rightarrow> (Some e, s)
                | None \<Rightarrow> (None, emit (Signal to ty) s)))"

subsection \<open>webrtc.ts: updatePeerState\<close>

fun validTransitions :: "ConnectionState \<Rightarrow> ConnectionState list" where
  "validTransitions idle = [offering, answering, closed]"
| "validTransitions offering = [connecting, failed, closed]"
| "validTransitions answering = [connecting, failed, closed]"
| "validTransitions connecting = [connected, failed, closed]"
| "validTransitions connected = [failed, closed]"
| "validTransitions failed = [connecting, closed]"
| "validTransitions closed = []"

definition updatePeerState :: "user_id \<Rightarrow> ConnectionState \<Rightarrow> string option \<Rightarrow> rtc \<Rightarrow> rtc" where
  "updatePeerState peerId newState error s =
     (let conn = map_of (peerConnections s) peerId;
          oldState = (case conn of None \<Rightarrow> idle | Some c \<Rightarrow> state c);
          s1 = (if newState \<notin> set (validTransitions oldState)
                then emit (Warn oldState newState peerId) s else s)
      in (case conn of
            Some c \<Rightarrow>
              emit (StateLog peerId oldState newState)
                (s1\<lparr>peerConnections := AList.update peerId
                      (c\<lparr>state := newState,
                         lastError :=
                           (case truthy error of None \<Rightarrow> lastError c | Some e \<Rightarrow> Some e),
                         retryCount := (if newState = connected then 0 else retryCount c)\<rparr>)
                      (peerConnections s1)\<rparr>)
          | None \<Rightarrow>
              if newState \<noteq> closed
              then s1\<lparr>peerConnections := AList.update peerId
                        \<lparr>pc = None, dc = None, state = newState, retryCount = 0,
                         lastError = truthy error\<rparr> (peerConnections s1)\<rparr>
              else s1))"

definition getPeerState :: "rtc \<Rightarrow> user_id \<Rightarrow> ConnectionState option" where
  "getPeerState s peerId = map_option state (map_of (peerConnections s) peerId)"

subsection \<open>webrtc.ts: sessions and candidates\<close>

text \<open>
  createPeerConnection: a new engine session (its constructor is taken to return), whose
  last statement is \<open>pendingCandidates.set(peerId, [])\<close>.
\<close>

definition createPeerConnection :: "user_id \<Rightarrow> bool \<Rightarrow> rtc \<Rightarrow> nat \<times> rtc" where
  "createPeerConnection peerId isInitiator s =
     (next_pc s,
      (emit (PcCreated peerId (next_pc s)) s)
        \<lparr>next_pc := Suc (next_pc s),
         pendingCandidates := AList.update peerId [] (pendingCandidates s)\<rparr>)"

text \<open>
  The loop that flushes pending candidates into a session: a candidate that the engine
  refuses is logged and the loop goes on. A null session makes every call throw.
\<close>

fun flush_candidates :: "engine \<Rightarrow> nat option \<Rightarrow> candidate list \<Rightarrow> rtc \<Rightarrow> rtc" where
  "flush_candidates env h [] s = s"
| "flush_candidates env h (cand # rest) s =
     flush_candidates env h rest
       (case h of
          None \<Rightarrow> s
        | Some n \<Rightarrow> if ice_error env cand then s else emit (AddIce n cand) s)"

definition pending_of :: "rtc \<Rightarrow> user_id \<Rightarrow> candidate list" where
  "pending_of s peerId =
     (case map_of (pendingCandidates s) peerId of None \<Rightarrow> [] | Some arr \<Rightarrow> arr)"

definition handleRemoteIce :: "engine \<Rightarrow> user_id \<Rightarrow> candidate \<Rightarrow> rtc \<Rightarrow> rtc" where
  "handleRemoteIce env from_id cand s =
     (case map_of (peerConnections s) from_id of
        None \<Rightarrow>
          s\<lparr>pendingCandidates :=
               AList.update from_id (pending_of s from_id @ [cand]) (pendingCandidates s)\<rparr>
      | Some conn \<Rightarrow> flush_candidates env (pc conn) [cand] s)"

subsection \<open>webrtc.ts: connectToPeer, handleOffer, handleAnswer\<close>

text \<open>
  connectToPeer with the default \<open>waitForEstablished = false\<close> (with \<open>true\<close> the call
  also polls the entry until it is connected or failed, which reads and never writes).
  The function is asynchronous: it runs to its first await and is resumed later, and
  between two of its runs other handlers, also another call of connectToPeer for the same
  peer, can run on the same variables. Each run is one step, and the control state names
  the await at which the call is suspended:
  \<^item> \<open>DL_start\<close>: the call has not begun;
  \<^item> \<open>DL_createOffer h\<close>: at \<open>await pc.createOffer()\<close>, the session \<open>h\<close> and the
    entry in state offering are made;
  \<^item> \<open>DL_setLocal h\<close>: at \<open>await pc.setLocalDescription(offer)\<close>;
  \<^item> \<open>DL_sendSignal r\<close>: at \<open>await sendSignal(..)\<close>, the entry is connecting, the
    offer is handed to the bus and \<open>r\<close> is what the send will answer;
  \<^item> \<open>DL_return r\<close>: the call has returned (\<open>None\<close>) or thrown.
\<close>

datatype dial_pc =
    DL_start
  | DL_createOffer nat
  | DL_setLocal nat
  | DL_sendSignal "string option"
  | DL_return "string option"

fun connectToPeer_step :: "engine \<Rightarrow> user_id \<Rightarrow> dial_pc \<Rightarrow> rtc \<Rightarrow> dial_pc \<times> rtc" where
  "connectToPeer_step env peerId DL_start s =
     (if myUserId s = None then (DL_return (Some ''not initialized''), s)
      else if \<not> isHost s
      then (DL_return (Some ''Permission denied: only host can connect to peers''), s)
      else
        let existing = map_of (peerConnections s) peerId in
        if (case existing of None \<Rightarrow> False
            | Some c \<Rightarrow> state c = connected \<and> dc c = Some rs_open)
        then (DL_return None, s)
        else if (case existing of None \<Rightarrow> False | Some c \<Rightarrow> state c = connecting)
        then (DL_return None, s)
        else
          let s1 = updatePeerState peerId offering None s;
              (h, s2) = createPeerConnection peerId True s1
          in if signalingClosed env
             then (DL_return (Some ''PC created with signalingState=closed''),
                   updatePeerState peerId failed
                     (Some ''PC created with signalingState=closed'') s2)
             else
               (DL_createOffer h,
                (emit (DcCreated peerId) s2)
                  \<lparr>peerConnections := AList.update peerId
                     \<lparr>pc = Some h, dc = Some rs_connecting, state = offering,
                      retryCount = 0, lastError = None\<rparr> (peerConnections s2)\<rparr>))"
| "connectToPeer_step env peerId (DL_createOffer h) s =
     (case negotiate_error env of
        Some e \<Rightarrow>
          (DL_return (Some e),
           updatePeerState peerId failed (Some (''Failed to create offer: '' @ e)) s)
      | None \<Rightarrow> (DL_setLocal h, s))"
| "connectToPeer_step env peerId (DL_setLocal h) s =
     (case setLocal_error env of
        Some e \<Rightarrow>
          (DL_return (Some e),
           updatePeerState peerId failed (Some (''Failed to create offer: '' @ e)) s)
      | None \<Rightarrow>
          (let s4 = updatePeerState peerId connecting None s
           in (DL_sendSignal (fst (sendSignal env peerId offer s4)),
               snd (sendSignal env peerId offer s4))))"
| "connectToPeer_step env peerId (DL_sendSignal r) s =
     (case r of
        Some e \<Rightarrow>
          (DL_return (Some e),
           updatePeerState peerId failed (Some (''Failed to create offer: '' @ e)) s)
      | None \<Rightarrow> (DL_return None, s))"
| "connectToPeer_step env peerId (DL_return r) s = (DL_return r, s)"

fun connectToPeer_run :: "nat \<Rightarrow> engine \<Rightarrow> user_id \<Rightarrow> dial_pc \<times> rtc \<Rightarrow> dial_pc \<times> rtc" where
  "connectToPeer_run 0 env peerId c = c"
| "connectToPeer_run (Suc n) env peerId c =
     connectToPeer_run n env peerId (connectToPeer_step env peerId (fst c) (snd c))"

text \<open>
  The call with nothing else running between its steps: four steps reach \<open>DL_return\<close>.
  The result is the error thrown, if any, and the state.
\<close>

definition connectToPeer :: "engine \<Rightarrow> user_id \<Rightarrow> rtc \<Rightarrow> string option \<times> rtc" where
  "connectToPeer env peerId s =
     (case connectToPeer_run 4 env peerId (DL_start, s) of
        (DL_return r, s') \<Rightarrow> (r, s')
      | (c, s') \<Rightarrow> (None, s'))"

fun dial_rank :: "dial_pc \<Rightarrow> nat" where
  "dial_rank DL_start = 4"
| "dial_rank (DL_createOffer h) = 3"
| "dial_rank (DL_setLocal h) = 2"
| "dial_rank (DL_sendSignal r) = 1"
| "dial_rank (DL_return r) = 0"




definition handleOffer :: "engine \<Rightarrow> user_id \<Rightarrow> rtc \<Rightarrow> string option \<times> rtc" where
  "handleOffer env from_id s =
     (if (case map_of (peerConnections s) from_id of None \<Rightarrow> False
          | Some c \<Rightarrow> state c = connected \<or> state c = connecting)
      then (None, s)
      else
        let s1 = updatePeerState from_id answering None s;
            (h, s2) = createPeerConnection from_id False s1;
            s3 = s2\<lparr>peerConnections := AList.update from_id
                      \<lparr>pc = Some h, dc = None, state = answering,
                       retryCount = 0, lastError = None\<rparr> (peerConnections s2)\<rparr>
        in (case negotiate_error env of
              Some e \<Rightarrow>
                (Some e, updatePeerState from_id failed
                           (Some (''Failed to handle offer: '' @ e)) s3)
            | None \<Rightarrow>
                (let s4 = updatePeerState from_id connecting None s3 in
                 (case sendSignal env from_id answer s4 of
                    (Some e, s5) \<Rightarrow>
                      (Some e, updatePeerState from_id failed
                                 (Some (''Failed to handle offer: '' @ e)) s5)
                  | (None, s5) \<Rightarrow>
                      (let s6 = flush_candidates env (Some h) (pending_of s5 from_id) s5
                       in (None, s6\<lparr>pendingCandidates :=
                                       AList.update from_id [] (pendingCandidates s6)\<rparr>))))))"

definition handleAnswer :: "engine \<Rightarrow> user_id \<Rightarrow> rtc \<Rightarrow> string option \<times> rtc" where
  "handleAnswer env from_id s =
     (case map_of (peerConnections s) from_id of
        None \<Rightarrow> (None, s)
      | Some conn \<Rightarrow>
          (case (if pc conn = None then Some ''Cannot read properties of null''
                 else negotiate_error env) of
             Some e \<Rightarrow>
               (Some e, updatePeerState from_id failed
                          (Some (''Failed to handle answer: '' @ e)) s)
           | None \<Rightarrow>
               let s1 = updatePeerState from_id connecting None s;
                   s2 = flush_candidates env (pc conn) (pending_of s1 from_id) s1
               in (None, s2\<lparr>pendingCandidates :=
                               AList.update from_id [] (pendingCandidates s2)\<rparr>)))"

subsection \<open>webrtc.ts: engine callbacks, closePeer, cleanup\<close>



definition retryTimer :: "engine \<Rightarrow> user_id \<Rightarrow> rtc \<Rightarrow> rtc" where
  "retryTimer env peerId s =
     (if map_of (peerConnections s) peerId \<noteq> None then snd (connectToPeer env peerId s) else s)"

text \<open>
  The callbacks of a data channel, on the channel of the current entry: the engine has set
  the channel's readyState when it calls them.
\<close>

definition set_dc :: "user_id \<Rightarrow> ready_state \<Rightarrow> rtc \<Rightarrow> rtc" where
  "set_dc peerId rs s =
     (case map_of (peerConnections s) peerId of
        None \<Rightarrow> s
      | Some conn \<Rightarrow>
          if dc conn = None then s
          else s\<lparr>peerConnections :=
                  AList.update peerId (conn\<lparr>dc := Some rs\<rparr>) (peerConnections s)\<rparr>)"

definition dc_onopen :: "user_id \<Rightarrow> rtc \<Rightarrow> rtc" where
  "dc_onopen peerId s = updatePeerState peerId connected None (set_dc peerId rs_open s)"

definition dc_onclose :: "user_id \<Rightarrow> rtc \<Rightarrow> rtc" where
  "dc_onclose peerId s = updatePeerState peerId closed None (set_dc peerId rs_closed s)"

definition dc_onerror :: "user_id \<Rightarrow> rtc \<Rightarrow> rtc" where
  "dc_onerror peerId s = updatePeerState peerId failed (Some ''DataChannel error'') s"

text \<open>\<open>pc.ondatachannel\<close> of session \<open>h\<close>, with the readyState of the channel announced.\<close>

definition ondatachannel :: "user_id \<Rightarrow> nat \<Rightarrow> ready_state \<Rightarrow> rtc \<Rightarrow> rtc" where
  "ondatachannel peerId h rs s =
     (case map_of (peerConnections s) peerId of
        Some conn \<Rightarrow>
          s\<lparr>peerConnections := AList.update peerId (conn\<lparr>dc := Some rs\<rparr>) (peerConnections s)\<rparr>
      | None \<Rightarrow>
          s\<lparr>peerConnections := AList.update peerId
               \<lparr>pc = Some h, dc = Some rs, state = connecting, retryCount = 0,
                lastError = None\<rparr> (peerConnections s)\<rparr>)"

definition closePeer :: "user_id \<Rightarrow> rtc \<Rightarrow> rtc" where
  "closePeer peerId s =
     (let s1 = (case map_of (peerConnections s) peerId of
                  None \<Rightarrow> s
                | Some conn \<Rightarrow>
                    updatePeerState peerId closed None
                      (case pc conn of None \<Rightarrow> s | Some h \<Rightarrow> emit (PcClosed h) s))
      in s1\<lparr>peerConnections := AList.delete peerId (peerConnections s1),
            pendingCandidates := AList.delete peerId (pendingCandidates s1)\<rparr>)"

fun closePeers :: "user_id list \<Rightarrow> rtc \<Rightarrow> rtc" where
  "closePeers [] s = s"
| "closePeers (p # ps) s = closePeers ps (closePeer p s)"

definition cleanup :: "rtc \<Rightarrow> rtc" where
  "cleanup s = (closePeers (map fst (peerConnections s)) s)\<lparr>roomMembersChannel := False\<rparr>"

text \<open>closeSignaling: both channels are unsubscribed (errors are logged) and forgotten.\<close>

definition closeSignaling :: "rtc \<Rightarrow> rtc" where
  "closeSignaling s = s\<lparr>sig_channel := False, sig_user := None\<rparr>"

subsection \<open>webrtc.ts: the signal handler of initWebRTC, broadcast\<close>

definition onSignal :: "engine \<Rightarrow> signal_message \<Rightarrow> rtc \<Rightarrow> rtc" where
  "onSignal env msg s =
     (case myUserId s of
        None \<Rightarrow> s
      | Some me \<Rightarrow>
          if msg_to msg \<noteq> me then s
          else if msg_from msg = me then s
          else if msg_type msg = offer \<and> \<not> isHost s \<and> Some (msg_from msg) \<noteq> currentHostId s
          then s
          else (case msg_type msg of
                  offer \<Rightarrow> snd (handleOffer env (msg_from msg) s)
                | answer \<Rightarrow> snd (handleAnswer env (msg_from msg) s)
                | ice \<Rightarrow> handleRemoteIce env (msg_from msg) (msg_data msg) s
                | host_elected \<Rightarrow> s))"

text \<open>
  broadcast returns nothing; what it reports is what it logs: the count \<open>sent\<close> and the
  list \<open>errors\<close>. The loop runs over the map in its order.
\<close>

fun broadcast_loop ::
  "engine \<Rightarrow> (user_id \<times> PeerConnection) list \<Rightarrow> nat \<times> string list \<times> rtc
     \<Rightarrow> nat \<times> string list \<times> rtc" where
  "broadcast_loop env [] acc = acc"
| "broadcast_loop env ((peerId, conn) # rest) (sent, errors, s) =
     broadcast_loop env rest
       (if dc conn = Some rs_open \<and> state conn = connected
        then (case dc_send_error env peerId of
                None \<Rightarrow> (sent + 1, errors, emit (DcSend peerId) s)
              | Some e \<Rightarrow> (sent, errors @ [peerId @ '': '' @ e], s))
        else (sent, errors, s))"

definition broadcast :: "engine \<Rightarrow> rtc \<Rightarrow> nat \<times> string list \<times> rtc" where
  "broadcast env s = broadcast_loop env (peerConnections s) (0, [], s)"

subsection \<open>Reference points for the properties\<close>

text \<open>
  The edge set of section 4.4 of the specification, in its words: idle to offering or
  answering, offering to connecting, answering to connecting, connecting to connected, any
  state to failed, any state to closed.
\<close>

definition spec_transition :: "ConnectionState \<Rightarrow> ConnectionState \<Rightarrow> bool" where
  "spec_transition old new \<longleftrightarrow>
     (old = idle \<and> new = offering) \<or> (old = idle \<and> new = answering) \<or>
     (old = offering \<and> new = connecting) \<or> (old = answering \<and> new = connecting) \<or>
     (old = connecting \<and> new = connected) \<or> new = failed \<or> new = closed"

text \<open>An engine and a bus that refuse nothing.\<close>

definition quiet_engine :: engine where
  "quiet_engine = \<lparr>signalingClosed = False, negotiate_error = None, setLocal_error = None,
                    signal_error = None, ice_error = (\<lambda>c. False),
                    dc_send_error = (\<lambda>p. None)\<rparr>"

text \<open>
  The variables as initSignaling and initWebRTC leave them for the user \<open>me\<close> when the
  room records \<open>hostId\<close> as owner and amIHost agrees with it: no peer, no candidate.
\<close>

definition initial_rtc :: "user_id \<Rightarrow> user_id option \<Rightarrow> rtc" where
  "initial_rtc me hostId =
     \<lparr>myUserId = Some me, isHost = (hostId = Some me), currentHostId = hostId,
      autoConnectEnabled = False, roomMembersChannel = True, peerConnections = [],
      pendingCandidates = [], sig_user = Some me, sig_channel = True, next_pc = 0,
      effects = []\<rparr>"


text \<open>The peers that the loop of broadcast sends to, in the order of the map.\<close>

definition eligible :: "rtc \<Rightarrow> user_id list" where
  "eligible s =
     map fst (filter (\<lambda>e. dc (snd e) = Some rs_open \<and> state (snd e) = connected)
                     (peerConnections s))"

section \<open>joinRoom.ts and presence.ts: leaving a room\<close>

text \<open>
  One participant's process: the store it talks to, the user of its authenticated session
  (none: ensureAuth throws), the module variables of presence.ts (\<open>channel\<close> says that
  the presence channel is set), the variables of signaling.ts and webrtc.ts, and the
  trace of the calls that leave the process, in order.
\<close>

datatype event =
    PresenceUntrack
  | MembershipDelete room_id user_id
  | PresenceUnsubscribe
  | SignalingUnsubscribe
  | PeerClosed user_id
  | MembersFeedUnsubscribe

record world =
  db :: store
  session :: "user_id option"
  channel :: bool
  tracked :: bool
  currentRoomId :: "room_id option"
  client :: rtc
  trace :: "event list"

text \<open>
  leaveRoom as a call of this process: ensureAuth first (it throws outside the try block),
  then the store calls of leaveRoom, of which the first is the delete of the caller's row.
\<close>

definition leaveRoom_call :: "bool list \<Rightarrow> room_id \<Rightarrow> world \<Rightarrow> string option \<times> world" where
  "leaveRoom_call fs rid w =
     (case session w of
        None \<Rightarrow> (Some ''Not authenticated - please sign in first'', w)
      | Some uid \<Rightarrow>
          (None, w\<lparr>db := leaveRoom fs rid uid (db w),
                   trace := trace w @ [MembershipDelete rid uid]\<rparr>))"

text \<open>
  presence.ts, leavePresence. An untrack that throws leaves \<open>tracked\<close> set; an error of
  leaveRoom or of unsubscribe is logged.
\<close>

definition leavePresence :: "bool \<Rightarrow> bool list \<Rightarrow> world \<Rightarrow> world" where
  "leavePresence untrack_throws fs w =
     (if \<not> channel w then w
      else
        let w1 = (if tracked w
                  then (if untrack_throws then w\<lparr>trace := trace w @ [PresenceUntrack]\<rparr>
                        else w\<lparr>tracked := False, trace := trace w @ [PresenceUntrack]\<rparr>)
                  else w);
            w2 = (case truthy (currentRoomId w1) of
                    None \<Rightarrow> w1
                  | Some rid \<Rightarrow> (snd (leaveRoom_call fs rid w1))\<lparr>currentRoomId := None\<rparr>)
        in w2\<lparr>channel := False, trace := trace w2 @ [PresenceUnsubscribe]\<rparr>)"

definition closeSignaling_call :: "world \<Rightarrow> world" where
  "closeSignaling_call w =
     w\<lparr>client := closeSignaling (client w),
       trace := trace w @ (if sig_channel (client w) then [SignalingUnsubscribe] else [])\<rparr>"

definition cleanup_call :: "world \<Rightarrow> world" where
  "cleanup_call w =
     w\<lparr>client := cleanup (client w),
       trace := trace w @ map PeerClosed (map fst (peerConnections (client w))) @
                (if roomMembersChannel (client w) then [MembersFeedUnsubscribe] else [])\<rparr>"

text \<open>
  joinRoom.ts, disconnectFromRoom. \<open>fs1\<close> and \<open>fs2\<close> are the outcomes of the store
  calls of the leaveRoom inside leavePresence and of the last leaveRoom.
\<close>

definition disconnectFromRoom ::
  "bool \<Rightarrow> bool list \<Rightarrow> bool list \<Rightarrow> room_id \<Rightarrow> world \<Rightarrow> string option \<times> world" where
  "disconnectFromRoom untrack_throws fs1 fs2 roomId w =
     (let w1 = leavePresence untrack_throws fs1 w;
          w2 = closeSignaling_call w1;
          w3 = cleanup_call w2
      in leaveRoom_call fs2 roomId w3)"

section \<open>Properties\<close>

lemma delete_stale_members:
  "set (room_members (delete_stale df rid us st)) =
     set (room_members st) - {(rid, u) | u. u \<in> set us \<and> \<not> df u}"
  by (induction us arbitrary: st) (auto simp: delete_member_def)

lemma delete_stale_rooms: "rooms (delete_stale df rid us st) = rooms st"
  by (induction us arbitrary: st) (auto simp: delete_member_def)

text \<open>
  C8. Whatever the membership table holds, the reconciliation issues a delete only for a
  user that is absent from the presence view and is not the caller; the rows that leave
  the table are rows of such users in this room; and when the presence view shows no user
  at all, nothing is deleted and the store is unchanged, stale rows or not.
\<close>

theorem reconcile_safe:
  assumes "reconcile env rid userId st = (deleted, st')"
  shows "(\<forall>u \<in> set deleted. u \<noteq> userId \<and>
            (\<exists>state. state_view env = Some state \<and> u \<notin> set (presentUserIds state []))) \<and>
         set (room_members st) - set (room_members st') \<subseteq> {rid} \<times> set deleted \<and>
         rooms st' = rooms st \<and>
         ((\<forall>state. state_view env = Some state \<longrightarrow> presentUserIds state [] = []) \<longrightarrow>
            deleted = [] \<and> st' = st)"
  using assms
  by (auto simp: reconcile_def Let_def delete_stale_members delete_stale_rooms
           split: option.splits if_splits)

text \<open>
  Two runs: \<open>A\<close> is present, \<open>C\<close> is the caller, and the stale row of \<open>B\<close> goes;
  then the same table with an empty presence view, where every row stays.
\<close>

theorem reconcile_safe_witness:
  "reconcile \<lparr>state_view = Some [(''k1'', [\<lparr>meta_user_id = Some ''A'', role = ''host''\<rparr>])],
              members_fail = False, delete_fails = (\<lambda>u. False)\<rparr> ''R'' ''C''
     \<lparr>rooms = [], room_members = [(''R'', ''A''), (''R'', ''B''), (''R'', ''C'')]\<rparr>
     = ([''B''], \<lparr>rooms = [], room_members = [(''R'', ''A''), (''R'', ''C'')]\<rparr>) \<and>
   ''B'' \<noteq> ''C'' \<and>
   ''B'' \<notin> set (presentUserIds [(''k1'', [\<lparr>meta_user_id = Some ''A'', role = ''host''\<rparr>])] []) \<and>
   reconcile \<lparr>state_view = Some [], members_fail = False, delete_fails = (\<lambda>u. False)\<rparr> ''R'' ''C''
     \<lparr>rooms = [], room_members = [(''R'', ''A''), (''R'', ''B''), (''R'', ''C'')]\<rparr>
     = ([], \<lparr>rooms = [], room_members = [(''R'', ''A''), (''R'', ''B''), (''R'', ''C'')]\<rparr>)"
proof -
  let ?st = "\<lparr>rooms = [], room_members = [(''R'', ''A''), (''R'', ''B''), (''R'', ''C'')]\<rparr>"
  let ?e1 = "\<lparr>state_view = Some [(''k1'', [\<lparr>meta_user_id = Some ''A'', role = ''host''\<rparr>])],
              members_fail = False, delete_fails = (\<lambda>u. False)\<rparr>"
  let ?e2 = "\<lparr>state_view = Some [], members_fail = False, delete_fails = (\<lambda>u::string. False)\<rparr>"
  have r1: "reconcile ?e1 ''R'' ''C'' ?st
              = ([''B''], \<lparr>rooms = [], room_members = [(''R'', ''A''), (''R'', ''C'')]\<rparr>)"
    by (simp add: reconcile_def members_of_def delete_member_def)
  obtain d s where r2: "reconcile ?e2 ''R'' ''C'' ?st = (d, s)"
    by (cases "reconcile ?e2 ''R'' ''C'' ?st") auto
  from reconcile_safe [OF r2] have "d = [] \<and> s = ?st" by simp
  with r2 reconcile_safe [OF r1] r1 show ?thesis by simp
qed

subsection \<open>The election race\<close>

lemma select_room_update [simp]:
  "select_room (st\<lparr>rooms := AList.update k v (rooms st)\<rparr>) rid =
     (if rid = k then Some v else select_room st rid)"
  by (simp add: select_room_def update_conv')

lemma race_inv_init:
  assumes "select_room st rid = Some r" "owner r = None"
  shows "race_inv rid (room_members st) a b (st, EL_current, EL_current)"
  using assms by (simp add: race_inv_def pc_ok_def owner_of_def)

lemma race_step_inv:
  assumes "race_inv rid ms a b c" "a \<noteq> b" "(rid, a) \<in> set ms" "(rid, b) \<in> set ms"
  shows "race_inv rid ms a b (race_step rid a b (first, False) c)"
proof -
  obtain st pa pb where c: "c = (st, pa, pb)" by (cases c)
  show ?thesis
  proof (cases first)
    case True
    with assms c show ?thesis
      by (cases pa)
         (auto simp: race_inv_def pc_ok_def owner_of_def getCurrentHost_def
                     update_owner_if_def is_member_def
               split: option.splits elect_pc.splits if_splits)
  next
    case False
    with assms c show ?thesis
      by (cases pb)
         (auto simp: race_inv_def pc_ok_def owner_of_def getCurrentHost_def
                     update_owner_if_def is_member_def
               split: option.splits elect_pc.splits if_splits)
  qed
qed

lemma race_step_owner_stable:
  assumes "race_inv rid ms a b c" "a \<noteq> b" "(rid, a) \<in> set ms" "(rid, b) \<in> set ms"
    "owner_of (fst c) rid = Some x"
  shows "owner_of (fst (race_step rid a b (first, False) c)) rid = Some x"
proof -
  obtain st pa pb where c: "c = (st, pa, pb)" by (cases c)
  show ?thesis
  proof (cases first)
    case True
    with assms c show ?thesis
      by (cases pa)
         (auto simp: race_inv_def pc_ok_def owner_of_def getCurrentHost_def
                     update_owner_if_def is_member_def
               split: option.splits elect_pc.splits if_splits)
  next
    case False
    with assms c show ?thesis
      by (cases pb)
         (auto simp: race_inv_def pc_ok_def owner_of_def getCurrentHost_def
                     update_owner_if_def is_member_def
               split: option.splits elect_pc.splits if_splits)
  qed
qed

lemma race_run_inv:
  assumes "race_inv rid ms a b c" "a \<noteq> b" "(rid, a) \<in> set ms" "(rid, b) \<in> set ms"
    "\<forall>e \<in> set es. \<not> snd e"
  shows "race_inv rid ms a b (electHost_race rid a b es c)"
  using assms
proof (induction es arbitrary: c)
  case Nil
  then show ?case by simp
next
  case (Cons e es)
  obtain first fail where e: "e = (first, fail)" by (cases e)
  with Cons.prems have nf: "\<not> fail" by simp
  have "race_inv rid ms a b (race_step rid a b e c)"
    using race_step_inv [OF Cons.prems(1-4)] e nf by simp
  with Cons show ?case by simp
qed

lemma race_run_owner_stable:
  assumes "race_inv rid ms a b c" "a \<noteq> b" "(rid, a) \<in> set ms" "(rid, b) \<in> set ms"
    "\<forall>e \<in> set es. \<not> snd e" "owner_of (fst c) rid = Some x"
  shows "owner_of (fst (electHost_race rid a b es c)) rid = Some x"
  using assms
proof (induction es arbitrary: c)
  case Nil
  then show ?case by simp
next
  case (Cons e es)
  obtain first fail where e: "e = (first, fail)" by (cases e)
  with Cons.prems have nf: "\<not> fail" by simp
  have i: "race_inv rid ms a b (race_step rid a b e c)"
    using race_step_inv [OF Cons.prems(1-4)] e nf by simp
  have o: "owner_of (fst (race_step rid a b e c)) rid = Some x"
    using race_step_owner_stable [OF Cons.prems(1-4) Cons.prems(6)] e nf by simp
  from Cons.IH [OF i Cons.prems(2-4) _ o] Cons.prems(5) show ?case by simp
qed

lemma electHost_race_append:
  "electHost_race rid a b (es1 @ es2) c =
     electHost_race rid a b es2 (electHost_race rid a b es1 c)"
  by (induction es1 arbitrary: c) auto

lemma race_inv_final:
  assumes "race_inv rid ms a b (st, EL_return ra, EL_return rb)" "a \<noteq> b"
  shows "ra \<noteq> rb \<and> owner_of st rid = Some (if ra then a else b)"
  using assms by (auto simp: race_inv_def pc_ok_def)

lemma electHost_step_rank:
  "elect_rank (fst (electHost_step f rid uid p st)) \<le> elect_rank p - 1"
  by (cases p) (auto split: option.splits prod.splits)

lemma elect_run_rank:
  "elect_rank (fst (elect_run fs rid uid c)) \<le> elect_rank (fst c) - length fs"
proof (induction fs arbitrary: c)
  case Nil
  then show ?case by simp
next
  case (Cons f fs)
  have "elect_rank (fst (elect_run fs rid uid (electHost_step f rid uid (fst c) (snd c))))
          \<le> elect_rank (fst (electHost_step f rid uid (fst c) (snd c))) - length fs"
    by (rule Cons.IH)
  also have "\<dots> \<le> (elect_rank (fst c) - 1) - length fs"
    using electHost_step_rank [of f rid uid "fst c" "snd c"] by (rule diff_le_mono)
  finally show ?case by simp
qed

lemma elect_rank_0: "elect_rank p = 0 \<Longrightarrow> \<exists>b. p = EL_return b"
  by (cases p) auto

text \<open>electHost run alone returns: the five steps of its definition end in \<open>EL_return\<close>.\<close>

lemma electHost_returns:
  "\<exists>b. fst (elect_run (take 5 (fs @ replicate 5 False)) rid uid (EL_current, st)) = EL_return b"
proof -
  have "elect_rank (fst (elect_run (take 5 (fs @ replicate 5 False)) rid uid
                           (EL_current, st))) = 0"
    using elect_run_rank [of "take 5 (fs @ replicate 5 False)" rid uid "(EL_current, st)"]
    by simp
  then show ?thesis by (rule elect_rank_0)
qed

lemma race_rank:
  "elect_rank (fst (snd (electHost_race rid a b es c))) \<le>
     elect_rank (fst (snd c)) - length (filter fst es) \<and>
   elect_rank (snd (snd (electHost_race rid a b es c))) \<le>
     elect_rank (snd (snd c)) - length (filter (\<lambda>e. \<not> fst e) es)"
proof (induction es arbitrary: c)
  case Nil
  then show ?case by simp
next
  case (Cons e es)
  obtain first fail where e: "e = (first, fail)" by (cases e)
  obtain st pa pb where c: "c = (st, pa, pb)" by (cases c)
  let ?c' = "race_step rid a b e c"
  have s: "elect_rank (fst (snd ?c')) \<le> elect_rank pa - (if first then 1 else 0) \<and>
           elect_rank (snd (snd ?c')) \<le> elect_rank pb - (if first then 0 else 1)"
    using electHost_step_rank [of fail rid a pa st] electHost_step_rank [of fail rid b pb st]
    by (simp add: e c split_def)
  from Cons.IH [of ?c'] s show ?case
    by (auto simp: e c)
qed

lemma race_completes:
  assumes "5 \<le> length (filter fst es)" "5 \<le> length (filter (\<lambda>e. \<not> fst e) es)"
  shows "\<exists>st' ra rb. electHost_race rid a b es (st, EL_current, EL_current)
                       = (st', EL_return ra, EL_return rb)"
proof -
  let ?r = "electHost_race rid a b es (st, EL_current, EL_current)"
  have "elect_rank (fst (snd ?r)) = 0" "elect_rank (snd (snd ?r)) = 0"
    using race_rank [of rid a b es "(st, EL_current, EL_current)"] assms by simp_all
  then obtain ra rb where "fst (snd ?r) = EL_return ra" "snd (snd ?r) = EL_return rb"
    using elect_rank_0 by blast
  then have "?r = (fst ?r, EL_return ra, EL_return rb)"
    by (metis prod.collapse)
  then show ?thesis by blast
qed

lemma leaveRoom_step_rank:
  "leave_rank (fst (leaveRoom_step f rid uid p st)) \<le> leave_rank p - 1"
  by (cases p) (auto split: option.splits)

lemma leave_run_rank:
  "leave_rank (fst (leave_run fs rid uid c)) \<le> leave_rank (fst c) - length fs"
proof (induction fs arbitrary: c)
  case Nil
  then show ?case by simp
next
  case (Cons f fs)
  have "leave_rank (fst (leave_run fs rid uid (leaveRoom_step f rid uid (fst c) (snd c))))
          \<le> leave_rank (fst (leaveRoom_step f rid uid (fst c) (snd c))) - length fs"
    by (rule Cons.IH)
  also have "\<dots> \<le> (leave_rank (fst c) - 1) - length fs"
    using leaveRoom_step_rank [of f rid uid "fst c" "snd c"] by (rule diff_le_mono)
  finally show ?case by simp
qed

text \<open>leaveRoom run alone returns: the four steps of its definition end in \<open>LV_done\<close>.\<close>

lemma leaveRoom_returns:
  "fst (leave_run (take 4 (fs @ replicate 4 False)) rid uid (LV_delete, st)) = LV_done"
proof -
  have "leave_rank (fst (leave_run (take 4 (fs @ replicate 4 False)) rid uid
                           (LV_delete, st))) = 0"
    using leave_run_rank [of "take 4 (fs @ replicate 4 False)" rid uid "(LV_delete, st)"]
    by simp
  then show ?thesis
    by (cases "fst (leave_run (take 4 (fs @ replicate 4 False)) rid uid (LV_delete, st))") auto
qed

text \<open>
  C1 as the spec words it, for any room whose owner is null and any two distinct
  participants, fails: the stale-host path of electHost lets the second caller replace an
  owner that has no row in room\_members. Here neither \<open>A\<close> nor \<open>B\<close> has a row. \<open>A\<close>
  reads no host and claims the room; the store has applied the write, and \<open>B\<close> reads the
  host \<open>A\<close>, finds no row for \<open>A\<close>, and replaces it. Both calls return true, and the
  owner that \<open>A\<close> wrote is overwritten.
\<close>

theorem electHost_race_counterexample:
  "electHost_race ''R'' ''A'' ''B''
     [(True, False), (True, False), (False, False), (False, False), (False, False)]
     (\<lparr>rooms = [(''R'', \<lparr>room_name = ''r'', owner = None, host_id = None\<rparr>)],
       room_members = []\<rparr>, EL_current, EL_current)
   = (\<lparr>rooms = [(''R'', \<lparr>room_name = ''r'', owner = Some ''B'', host_id = None\<rparr>)],
       room_members = []\<rparr>, EL_return True, EL_return True)"
  by (simp add: getCurrentHost_def select_room_def update_owner_if_def is_member_def)

text \<open>
  C1, amended. In a room that exists with owner null, let two distinct participants that
  both have a row in room\_members call electHost concurrently, on a store that answers
  every call. Whatever the interleaving of their store calls: when both have returned,
  exactly one has returned true, the owner is that participant, and an owner that was
  written at any point of the race is still the owner at its end; and both do return once
  each has had five turns.
\<close>

theorem electHost_single_winner:
  assumes room: "select_room st rid = Some r" and free: "owner r = None"
    and ab: "a \<noteq> b"
    and ma: "is_member st rid a" and mb: "is_member st rid b"
    and ok: "\<forall>e \<in> set es. \<not> snd e"
  shows "(\<forall>st' ra rb.
            electHost_race rid a b es (st, EL_current, EL_current)
              = (st', EL_return ra, EL_return rb) \<longrightarrow>
            ra \<noteq> rb \<and> owner_of st' rid = Some (if ra then a else b) \<and>
            (\<forall>n x. owner_of (fst (electHost_race rid a b (take n es)
                                     (st, EL_current, EL_current))) rid = Some x
                   \<longrightarrow> owner_of st' rid = Some x)) \<and>
         (5 \<le> length (filter fst es) \<and> 5 \<le> length (filter (\<lambda>e. \<not> fst e) es) \<longrightarrow>
            (\<exists>st' ra rb. electHost_race rid a b es (st, EL_current, EL_current)
                            = (st', EL_return ra, EL_return rb)))"
proof -
  let ?ms = "room_members st"
  let ?c0 = "(st, EL_current, EL_current)"
  have ma': "(rid, a) \<in> set ?ms" and mb': "(rid, b) \<in> set ?ms"
    using ma mb by (simp_all add: is_member_def)
  have i0: "race_inv rid ?ms a b ?c0" by (rule race_inv_init [OF room free])
  have safe: "ra \<noteq> rb \<and> owner_of st' rid = Some (if ra then a else b) \<and>
              (\<forall>n x. owner_of (fst (electHost_race rid a b (take n es) ?c0)) rid = Some x
                     \<longrightarrow> owner_of st' rid = Some x)"
    if run: "electHost_race rid a b es ?c0 = (st', EL_return ra, EL_return rb)"
    for st' ra rb
  proof -
    have "race_inv rid ?ms a b (electHost_race rid a b es ?c0)"
      by (rule race_run_inv [OF i0 ab ma' mb' ok])
    with run have fin: "ra \<noteq> rb \<and> owner_of st' rid = Some (if ra then a else b)"
      using race_inv_final ab by simp
    have stable: "owner_of st' rid = Some x"
      if h: "owner_of (fst (electHost_race rid a b (take n es) ?c0)) rid = Some x" for n x
    proof -
      let ?c1 = "electHost_race rid a b (take n es) ?c0"
      have ok1: "\<forall>e \<in> set (take n es). \<not> snd e" using ok by (meson in_set_takeD)
      have ok2: "\<forall>e \<in> set (drop n es). \<not> snd e" using ok by (meson in_set_dropD)
      have i1: "race_inv rid ?ms a b ?c1" by (rule race_run_inv [OF i0 ab ma' mb' ok1])
      have "owner_of (fst (electHost_race rid a b (drop n es) ?c1)) rid = Some x"
        by (rule race_run_owner_stable [OF i1 ab ma' mb' ok2 h])
      moreover have "electHost_race rid a b (drop n es) ?c1 = electHost_race rid a b es ?c0"
        using electHost_race_append [of rid a b "take n es" "drop n es" ?c0] by simp
      ultimately show ?thesis using run by simp
    qed
    from fin stable show ?thesis by blast
  qed
  have live: "\<exists>st' ra rb. electHost_race rid a b es ?c0 = (st', EL_return ra, EL_return rb)"
    if "5 \<le> length (filter fst es) \<and> 5 \<le> length (filter (\<lambda>e. \<not> fst e) es)"
    using that race_completes by blast
  from safe live show ?thesis by blast
qed

text \<open>
  A race between the members \<open>A\<close> and \<open>B\<close>: both read no host, \<open>B\<close> claims the
  room, the claim of \<open>A\<close> updates no row, and the last read of \<open>A\<close> finds \<open>B\<close>.
  The turns after that find both calls returned.
\<close>

theorem electHost_single_winner_witness:
  "select_room \<lparr>rooms = [(''R'', \<lparr>room_name = ''r'', owner = None, host_id = None\<rparr>)],
                room_members = [(''R'', ''A''), (''R'', ''B'')]\<rparr> ''R''
     = Some \<lparr>room_name = ''r'', owner = None, host_id = None\<rparr> \<and>
   ''A'' \<noteq> ''B'' \<and>
   is_member \<lparr>rooms = [(''R'', \<lparr>room_name = ''r'', owner = None, host_id = None\<rparr>)],
              room_members = [(''R'', ''A''), (''R'', ''B'')]\<rparr> ''R'' ''A'' \<and>
   is_member \<lparr>rooms = [(''R'', \<lparr>room_name = ''r'', owner = None, host_id = None\<rparr>)],
              room_members = [(''R'', ''A''), (''R'', ''B'')]\<rparr> ''R'' ''B'' \<and>
   5 \<le> length (filter fst
     [(True, False), (False, False), (False, False), (True, False), (True, False),
      (True, False), (True, False), (False, False), (False, False), (False, False)]) \<and>
   5 \<le> length (filter (\<lambda>e. \<not> fst e)
     [(True, False), (False, False), (False, False), (True, False), (True, False),
      (True, False), (True, False), (False, False), (False, False), (False, False)]) \<and>
   electHost_race ''R'' ''A'' ''B''
     [(True, False), (False, False), (False, False), (True, False), (True, False),
      (True, False), (True, False), (False, False), (False, False), (False, False)]
     (\<lparr>rooms = [(''R'', \<lparr>room_name = ''r'', owner = None, host_id = None\<rparr>)],
       room_members = [(''R'', ''A''), (''R'', ''B'')]\<rparr>, EL_current, EL_current)
   = (\<lparr>rooms = [(''R'', \<lparr>room_name = ''r'', owner = Some ''B'', host_id = None\<rparr>)],
       room_members = [(''R'', ''A''), (''R'', ''B'')]\<rparr>, EL_return False, EL_return True) \<and>
   owner_of \<lparr>rooms = [(''R'', \<lparr>room_name = ''r'', owner = Some ''B'', host_id = None\<rparr>)],
             room_members = [(''R'', ''A''), (''R'', ''B'')]\<rparr> ''R'' = Some ''B''"
proof -
  let ?r = "\<lparr>room_name = ''r'', owner = None, host_id = None\<rparr>"
  let ?st = "\<lparr>rooms = [(''R'', ?r)], room_members = [(''R'', ''A''), (''R'', ''B'')]\<rparr>"
  let ?st' = "\<lparr>rooms = [(''R'', \<lparr>room_name = ''r'', owner = Some ''B'', host_id = None\<rparr>)],
               room_members = [(''R'', ''A''), (''R'', ''B'')]\<rparr>"
  let ?es = "[(True, False), (False, False), (False, False), (True, False), (True, False),
              (True, False), (True, False), (False, False), (False, False), (False, False)]"
  have room: "select_room ?st ''R'' = Some ?r" by (simp add: select_room_def)
  have free: "owner ?r = None" by simp
  have ab: "''A'' \<noteq> ''B''" by simp
  have ma: "is_member ?st ''R'' ''A''" and mb: "is_member ?st ''R'' ''B''"
    by (simp_all add: is_member_def)
  have ok: "\<forall>e \<in> set ?es. \<not> snd e" by simp
  have fair: "5 \<le> length (filter fst ?es)" "5 \<le> length (filter (\<lambda>e. \<not> fst e) ?es)"
    by simp_all
  have run: "electHost_race ''R'' ''A'' ''B'' ?es (?st, EL_current, EL_current)
               = (?st', EL_return False, EL_return True)"
    by (simp add: getCurrentHost_def select_room_def update_owner_if_def is_member_def)
  have "owner_of ?st' ''R'' = Some (if False then ''A'' else ''B'')"
    using electHost_single_winner [OF room free ab ma mb ok] run by blast
  with room ab ma mb fair run show ?thesis by simp
qed

subsection \<open>Host-departure recovery\<close>

lemma update_host_id_if_owner:
  "owner_of (snd (update_host_id_if rid e n st)) rid' = owner_of st rid'"
  by (auto simp: update_host_id_if_def owner_of_def split: option.splits)

lemma update_host_id_owner: "owner_of (update_host_id rid n st) rid' = owner_of st rid'"
  by (auto simp: update_host_id_def owner_of_def split: option.splits)

text \<open>
  The listener reads the host from \<open>owner\<close> and writes \<open>host_id\<close>: whatever the event
  and the store, the owner of every room is after the handler what it was before.
\<close>

lemma listenForMemberLeaves_owner:
  "owner_of (listenForMemberLeaves f1 f2 f3 rid leftUser st) rid' = owner_of st rid'"
  by (simp add: listenForMemberLeaves_def update_host_id_if_owner update_host_id_owner
           split: option.splits)

text \<open>
  C2, at the input where the code and the claim part. Room \<open>R\<close> has the host \<open>A\<close>; the
  row of \<open>A\<close> has been deleted and \<open>B\<close>, \<open>C\<close> remain. The handler picks the smallest
  remaining member \<open>B\<close>, but its compare-and-swap is on the column \<open>host_id\<close>: the
  owner is still \<open>A\<close> afterwards, where the claim has \<open>B\<close>. In a room without remaining
  members the owner stays \<open>A\<close> as well, where the claim has null.
\<close>

theorem listenForMemberLeaves_keeps_owner:
  "first_member \<lparr>rooms = [(''R'', \<lparr>room_name = ''r'', owner = Some ''A'', host_id = None\<rparr>)],
                 room_members = [(''R'', ''C''), (''R'', ''B'')]\<rparr> ''R'' = Some ''B'' \<and>
   owner_of (listenForMemberLeaves False False False ''R'' (Some ''A'')
     \<lparr>rooms = [(''R'', \<lparr>room_name = ''r'', owner = Some ''A'', host_id = None\<rparr>)],
       room_members = [(''R'', ''C''), (''R'', ''B'')]\<rparr>) ''R'' = Some ''A'' \<and>
   owner_of (listenForMemberLeaves False False False ''R'' (Some ''A'')
     \<lparr>rooms = [(''R'', \<lparr>room_name = ''r'', owner = Some ''A'', host_id = None\<rparr>)],
       room_members = []\<rparr>) ''R'' = Some ''A''"
  by (simp add: listenForMemberLeaves_def getCurrentHost_def select_room_def first_member_def
        members_of_def update_host_id_if_def update_host_id_def owner_of_def)

subsection \<open>Writes of the owner\<close>

text \<open>
  C3, at the input where the code and the claim part. \<open>L\<close> is the host and the last
  member of room \<open>R\<close> and leaves: leaveRoom deletes the row, reads the owner \<open>L\<close> and
  finds no member to promote. Before its last write, \<open>N\<close> calls electHost, finds the
  recorded host \<open>L\<close> without a row and takes the room by compare-and-swap. The last write
  of leaveRoom, \<open>update({owner: null}).eq('id', roomId)\<close>, carries no condition on the
  owner: it replaces the owner \<open>N\<close> by null.
\<close>

theorem leaveRoom_clear_unconditional:
  "(let st0 = \<lparr>rooms = [(''R'', \<lparr>room_name = ''r'', owner = Some ''L'', host_id = None\<rparr>)],
               room_members = [(''R'', ''L'')]\<rparr>;
        c1 = leave_run [False, False, False] ''R'' ''L'' (LV_delete, st0);
        e2 = electHost [] ''R'' ''N'' (snd c1);
        c3 = leaveRoom_step False ''R'' ''L'' (fst c1) (snd e2)
    in fst c1 = LV_clear \<and> fst e2 \<and> owner_of (snd e2) ''R'' = Some ''N'' \<and>
       fst c3 = LV_done \<and> owner_of (snd c3) ''R'' = None)"
  by (simp add: Let_def electHost_def getCurrentHost_def select_room_def first_member_def
        members_of_def update_owner_if_def update_owner_def owner_of_def is_member_def
        delete_member_def eval_nat_numeral)

subsection \<open>Peer state machine\<close>

lemma map_of_update [simp]:
  "map_of (AList.update k v al) k' = (if k' = k then Some v else map_of al k')"
  by (simp add: update_conv')

lemma emit_fields [simp]:
  "effects (emit e s) = effects s @ [e]"
  "peerConnections (emit e s) = peerConnections s"
  "pendingCandidates (emit e s) = pendingCandidates s"
  "myUserId (emit e s) = myUserId s"
  "isHost (emit e s) = isHost s"
  "sig_user (emit e s) = sig_user s"
  by (simp_all add: emit_def)

lemma updatePeerState_fields [simp]:
  "myUserId (updatePeerState p n e s) = myUserId s"
  "isHost (updatePeerState p n e s) = isHost s"
  "currentHostId (updatePeerState p n e s) = currentHostId s"
  "pendingCandidates (updatePeerState p n e s) = pendingCandidates s"
  "sig_user (updatePeerState p n e s) = sig_user s"
  by (simp_all add: updatePeerState_def Let_def emit_def split: option.splits)



lemma connectToPeer_run_4:
  "connectToPeer_run 4 env p c =
     (let c1 = connectToPeer_step env p (fst c) (snd c);
          c2 = connectToPeer_step env p (fst c1) (snd c1);
          c3 = connectToPeer_step env p (fst c2) (snd c2)
      in connectToPeer_step env p (fst c3) (snd c3))"
  by (simp add: eval_nat_numeral Let_def)


text \<open>
  C4, at the input where the code and the claim part. A host dials \<open>P\<close> and the
  engine refuses the offer: the entry of \<open>P\<close> is failed. The host dials again, and the
  first statement of connectToPeer, \<open>updatePeerState(peerId, 'offering')\<close>, takes the
  entry from failed to offering. That change is no edge of section 4.4, and it is not in
  the table validTransitions of the code either: updatePeerState logs its warning
  \<open>Invalid state transition\<close> and writes the state all the same.
\<close>

theorem redial_after_failure_leaves_edges:
  "getPeerState
     (snd (connectToPeer (quiet_engine\<lparr>negotiate_error := Some ''boom''\<rparr>) ''P''
             (initial_rtc ''H'' (Some ''H'')))) ''P'' = Some failed \<and>
   getPeerState
     (updatePeerState ''P'' offering None
        (snd (connectToPeer (quiet_engine\<lparr>negotiate_error := Some ''boom''\<rparr>) ''P''
                (initial_rtc ''H'' (Some ''H''))))) ''P'' = Some offering \<and>
   effects
     (snd (connectToPeer quiet_engine ''P''
        (snd (connectToPeer (quiet_engine\<lparr>negotiate_error := Some ''boom''\<rparr>) ''P''
                (initial_rtc ''H'' (Some ''H''))))))
     = [PcCreated ''P'' 0, DcCreated ''P'', StateLog ''P'' offering failed,
        Warn failed offering ''P'', StateLog ''P'' failed offering,
        PcCreated ''P'' 1, DcCreated ''P'', StateLog ''P'' offering connecting,
        Signal ''P'' offer] \<and>
   offering \<notin> set (validTransitions failed) \<and>
   \<not> spec_transition failed offering"
  by (simp add: connectToPeer_def connectToPeer_run_4 initial_rtc_def quiet_engine_def
        updatePeerState_def createPeerConnection_def sendSignal_def getPeerState_def
        spec_transition_def emit_def)

subsection \<open>Candidate buffering\<close>

text \<open>
  C5, at the input where the code and the claim part. A client has no entry for the host
  \<open>H\<close> and receives the candidates \<open>c1\<close>, \<open>c2\<close>: handleRemoteIce queues them in
  that order. Then the offer of \<open>H\<close> arrives. handleOffer calls createPeerConnection,
  whose last statement sets the queue of \<open>H\<close> to the empty array, and the flush loop
  that follows finds nothing: the session is created, the answer is sent, no candidate
  reaches the session, and the queue is empty. Both candidates are lost.
\<close>

theorem buffered_candidates_lost:
  "pending_of (handleRemoteIce quiet_engine ''H'' ''c2''
                 (handleRemoteIce quiet_engine ''H'' ''c1'' (initial_rtc ''P'' (Some ''H''))))
              ''H'' = [''c1'', ''c2''] \<and>
   fst (handleOffer quiet_engine ''H''
          (handleRemoteIce quiet_engine ''H'' ''c2''
             (handleRemoteIce quiet_engine ''H'' ''c1'' (initial_rtc ''P'' (Some ''H''))))) = None \<and>
   effects (snd (handleOffer quiet_engine ''H''
          (handleRemoteIce quiet_engine ''H'' ''c2''
             (handleRemoteIce quiet_engine ''H'' ''c1'' (initial_rtc ''P'' (Some ''H''))))))
     = [PcCreated ''H'' 0, StateLog ''H'' answering connecting, Signal ''H'' answer] \<and>
   pending_of (snd (handleOffer quiet_engine ''H''
          (handleRemoteIce quiet_engine ''H'' ''c2''
             (handleRemoteIce quiet_engine ''H'' ''c1'' (initial_rtc ''P'' (Some ''H''))))))
              ''H'' = []"
  by (simp add: handleOffer_def handleRemoteIce_def initial_rtc_def quiet_engine_def
        updatePeerState_def createPeerConnection_def sendSignal_def pending_of_def emit_def)

subsection \<open>Idempotent dial\<close>

lemma createPeerConnection_fields [simp]:
  "myUserId (snd (createPeerConnection p i s)) = myUserId s"
  "isHost (snd (createPeerConnection p i s)) = isHost s"
  "peerConnections (snd (createPeerConnection p i s)) = peerConnections s"
  "sig_user (snd (createPeerConnection p i s)) = sig_user s"
  by (simp_all add: createPeerConnection_def emit_def)

lemma sendSignal_fields [simp]:
  "myUserId (snd (sendSignal env to ty s)) = myUserId s"
  "isHost (snd (sendSignal env to ty s)) = isHost s"
  "peerConnections (snd (sendSignal env to ty s)) = peerConnections s"
  "pendingCandidates (snd (sendSignal env to ty s)) = pendingCandidates s"
  by (auto simp: sendSignal_def split: option.splits)


lemma connectToPeer_step_rank:
  "dial_rank (fst (connectToPeer_step env p c s)) \<le> dial_rank c - 1"
  by (cases c) (simp_all add: Let_def split_def split: option.splits)

text \<open>connectToPeer run alone returns: the four steps of its definition end in \<open>DL_return\<close>.\<close>

lemma connectToPeer_returns:
  "\<exists>r. fst (connectToPeer_run 4 env p (DL_start, s)) = DL_return r"
proof -
  let ?c1 = "connectToPeer_step env p DL_start s"
  let ?c2 = "connectToPeer_step env p (fst ?c1) (snd ?c1)"
  let ?c3 = "connectToPeer_step env p (fst ?c2) (snd ?c2)"
  let ?c4 = "connectToPeer_step env p (fst ?c3) (snd ?c3)"
  have "dial_rank (fst ?c1) \<le> 3"
    using connectToPeer_step_rank [of env p DL_start s] by simp
  then have "dial_rank (fst ?c2) \<le> 2"
    using connectToPeer_step_rank [of env p "fst ?c1" "snd ?c1"] by simp
  then have "dial_rank (fst ?c3) \<le> 1"
    using connectToPeer_step_rank [of env p "fst ?c2" "snd ?c2"] by simp
  then have "dial_rank (fst ?c4) = 0"
    using connectToPeer_step_rank [of env p "fst ?c3" "snd ?c3"] by simp
  then have "\<exists>r. fst ?c4 = DL_return r" by (cases "fst ?c4") auto
  then show ?thesis by (simp add: connectToPeer_run_4 Let_def)
qed







subsection \<open>Broadcast\<close>

lemma broadcast_loop_eq:
  "broadcast_loop env pcs (n, errs, s) =
     (n + length (filter (\<lambda>p. dc_send_error env p = None)
            (map fst (filter (\<lambda>e. dc (snd e) = Some rs_open \<and> state (snd e) = connected) pcs))),
      errs @ concat (map (\<lambda>p. case dc_send_error env p of None \<Rightarrow> [] | Some e \<Rightarrow> [p @ '': '' @ e])
            (map fst (filter (\<lambda>e. dc (snd e) = Some rs_open \<and> state (snd e) = connected) pcs))),
      s\<lparr>effects := effects s @ map DcSend (filter (\<lambda>p. dc_send_error env p = None)
            (map fst (filter (\<lambda>e. dc (snd e) = Some rs_open \<and> state (snd e) = connected) pcs)))\<rparr>)"
proof (induction pcs arbitrary: n errs s)
  case Nil
  then show ?case by simp
next
  case (Cons a pcs)
  obtain p c where a: "a = (p, c)" by (cases a)
  show ?case
    unfolding a by (simp add: Cons.IH emit_def split: option.splits)
qed

text \<open>
  C7 as the spec words it fails in its scenario. Three peers are connected; the channels
  of \<open>A\<close> and \<open>B\<close> are open, that of \<open>C\<close> is closed, and no send throws. The guard
  of the loop skips \<open>C\<close>: two peers are counted and the list of errors is empty, where
  the claim has one recorded error.
\<close>

theorem broadcast_closed_channel_counterexample:
  "fst (broadcast quiet_engine
     ((initial_rtc ''H'' (Some ''H''))
        \<lparr>peerConnections :=
           [(''A'', \<lparr>pc = Some 0, dc = Some rs_open, state = connected,
                     retryCount = 0, lastError = None\<rparr>),
            (''B'', \<lparr>pc = Some 1, dc = Some rs_open, state = connected,
                     retryCount = 0, lastError = None\<rparr>),
            (''C'', \<lparr>pc = Some 2, dc = Some rs_closed, state = connected,
                     retryCount = 0, lastError = None\<rparr>)]\<rparr>)) = 2 \<and>
   fst (snd (broadcast quiet_engine
     ((initial_rtc ''H'' (Some ''H''))
        \<lparr>peerConnections :=
           [(''A'', \<lparr>pc = Some 0, dc = Some rs_open, state = connected,
                     retryCount = 0, lastError = None\<rparr>),
            (''B'', \<lparr>pc = Some 1, dc = Some rs_open, state = connected,
                     retryCount = 0, lastError = None\<rparr>),
            (''C'', \<lparr>pc = Some 2, dc = Some rs_closed, state = connected,
                     retryCount = 0, lastError = None\<rparr>)]\<rparr>))) = [] \<and>
   length (fst (snd (broadcast quiet_engine
     ((initial_rtc ''H'' (Some ''H''))
        \<lparr>peerConnections :=
           [(''A'', \<lparr>pc = Some 0, dc = Some rs_open, state = connected,
                     retryCount = 0, lastError = None\<rparr>),
            (''B'', \<lparr>pc = Some 1, dc = Some rs_open, state = connected,
                     retryCount = 0, lastError = None\<rparr>),
            (''C'', \<lparr>pc = Some 2, dc = Some rs_closed, state = connected,
                     retryCount = 0, lastError = None\<rparr>)]\<rparr>)))) \<noteq> 1"
  by (simp add: broadcast_def initial_rtc_def quiet_engine_def emit_def)

text \<open>
  C7, amended. broadcast sends to exactly the peers whose channel is open and whose state
  is connected, in the order of the map; it cannot throw; a send that throws adds one
  entry to the errors and the loop goes on; the count reported is the number of sends that
  did not throw; the entries of the map are not touched. A peer whose channel is not open
  is skipped and records no error: with three connected peers of which one has a closed
  channel, and no send throwing, the report is two peers and no error.
\<close>

theorem broadcast_report:
  "broadcast env s =
     (length (filter (\<lambda>p. dc_send_error env p = None) (eligible s)),
      concat (map (\<lambda>p. case dc_send_error env p of None \<Rightarrow> [] | Some e \<Rightarrow> [p @ '': '' @ e])
                  (eligible s)),
      s\<lparr>effects := effects s @
           map DcSend (filter (\<lambda>p. dc_send_error env p = None) (eligible s))\<rparr>) \<and>
   (peerConnections s = [(p1, c1), (p2, c2), (p3, c3)] \<and>
    state c1 = connected \<and> state c2 = connected \<and> state c3 = connected \<and>
    dc c1 = Some rs_open \<and> dc c2 = Some rs_open \<and> dc c3 = Some rs_closed \<and>
    dc_send_error env p1 = None \<and> dc_send_error env p2 = None \<longrightarrow>
      fst (broadcast env s) = 2 \<and> fst (snd (broadcast env s)) = [])"
  by (simp add: broadcast_def broadcast_loop_eq eligible_def)

theorem broadcast_report_witness:
  "fst (broadcast (quiet_engine\<lparr>dc_send_error := (\<lambda>p. None)\<rparr>)
     \<lparr>myUserId = Some ''H'', isHost = True, currentHostId = Some ''H'',
      autoConnectEnabled = False, roomMembersChannel = True,
      peerConnections =
        [(''A'', \<lparr>pc = Some 0, dc = Some rs_open, state = connected,
                  retryCount = 0, lastError = None\<rparr>),
         (''B'', \<lparr>pc = Some 1, dc = Some rs_open, state = connected,
                  retryCount = 0, lastError = None\<rparr>),
         (''C'', \<lparr>pc = Some 2, dc = Some rs_closed, state = connected,
                  retryCount = 0, lastError = None\<rparr>)],
      pendingCandidates = [], sig_user = Some ''H'', sig_channel = True, next_pc = 3,
      effects = []\<rparr>) = 2 \<and>
   fst (snd (broadcast (quiet_engine\<lparr>dc_send_error := (\<lambda>p. None)\<rparr>)
     \<lparr>myUserId = Some ''H'', isHost = True, currentHostId = Some ''H'',
      autoConnectEnabled = False, roomMembersChannel = True,
      peerConnections =
        [(''A'', \<lparr>pc = Some 0, dc = Some rs_open, state = connected,
                  retryCount = 0, lastError = None\<rparr>),
         (''B'', \<lparr>pc = Some 1, dc = Some rs_open, state = connected,
                  retryCount = 0, lastError = None\<rparr>),
         (''C'', \<lparr>pc = Some 2, dc = Some rs_closed, state = connected,
                  retryCount = 0, lastError = None\<rparr>)],
      pendingCandidates = [], sig_user = Some ''H'', sig_channel = True, next_pc = 3,
      effects = []\<rparr>)) = []"
proof -
  let ?cA = "\<lparr>pc = Some 0, dc = Some rs_open, state = connected,
               retryCount = 0, lastError = None\<rparr>"
  let ?cB = "\<lparr>pc = Some 1, dc = Some rs_open, state = connected,
               retryCount = 0, lastError = None\<rparr>"
  let ?cC = "\<lparr>pc = Some 2, dc = Some rs_closed, state = connected,
               retryCount = 0, lastError = None\<rparr>"
  let ?s = "\<lparr>myUserId = Some ''H'', isHost = True, currentHostId = Some ''H'',
      autoConnectEnabled = False, roomMembersChannel = True,
      peerConnections = [(''A'', ?cA), (''B'', ?cB), (''C'', ?cC)],
      pendingCandidates = [], sig_user = Some ''H'', sig_channel = True, next_pc = 3,
      effects = []\<rparr>"
  let ?env = "quiet_engine\<lparr>dc_send_error := (\<lambda>p. None)\<rparr>"
  have h: "peerConnections ?s = [(''A'', ?cA), (''B'', ?cB), (''C'', ?cC)] \<and>
    state ?cA = connected \<and> state ?cB = connected \<and> state ?cC = connected \<and>
    dc ?cA = Some rs_open \<and> dc ?cB = Some rs_open \<and> dc ?cC = Some rs_closed \<and>
    dc_send_error ?env ''A'' = None \<and> dc_send_error ?env ''B'' = None"
    by simp
  from broadcast_report [of ?env ?s "''A''" ?cA "''B''" ?cB "''C''" ?cC] h
  show ?thesis by blast
qed

subsection \<open>Offers from a participant that is not the host\<close>

text \<open>
  C10. When the local participant is not the host and an offer comes from a sender other
  than the locally recorded host, the signal handler returns and leaves every variable and
  every effect as it was: no session, no answer, no state change. An offer addressed to
  the local participant by the recorded host is passed to handleOffer.
\<close>

theorem onSignal_offer_gate:
  "(msg_type msg = offer \<and> \<not> isHost s \<and> Some (msg_from msg) \<noteq> currentHostId s \<longrightarrow>
      onSignal env msg s = s) \<and>
   (msg_type msg = offer \<and> myUserId s = Some me \<and> msg_to msg = me \<and> msg_from msg \<noteq> me \<and>
    currentHostId s = Some (msg_from msg) \<longrightarrow>
      onSignal env msg s = snd (handleOffer env (msg_from msg) s))"
  by (auto simp: onSignal_def split: option.splits)

text \<open>
  The client \<open>P\<close> records the host \<open>H\<close>. An offer from \<open>X\<close> changes nothing; the
  offer from \<open>H\<close> creates the session and sends the answer.
\<close>

theorem onSignal_offer_gate_witness:
  "\<not> isHost (initial_rtc ''P'' (Some ''H'')) \<and>
   Some ''X'' \<noteq> currentHostId (initial_rtc ''P'' (Some ''H'')) \<and>
   onSignal quiet_engine
      \<lparr>msg_from = ''X'', msg_to = ''P'', msg_type = offer, msg_data = ''sdp''\<rparr>
      (initial_rtc ''P'' (Some ''H'')) = initial_rtc ''P'' (Some ''H'') \<and>
   myUserId (initial_rtc ''P'' (Some ''H'')) = Some ''P'' \<and>
   currentHostId (initial_rtc ''P'' (Some ''H'')) = Some ''H'' \<and>
   onSignal quiet_engine
      \<lparr>msg_from = ''H'', msg_to = ''P'', msg_type = offer, msg_data = ''sdp''\<rparr>
      (initial_rtc ''P'' (Some ''H''))
     = snd (handleOffer quiet_engine ''H'' (initial_rtc ''P'' (Some ''H''))) \<and>
   effects (snd (handleOffer quiet_engine ''H'' (initial_rtc ''P'' (Some ''H''))))
     = [PcCreated ''H'' 0, StateLog ''H'' answering connecting, Signal ''H'' answer]"
proof -
  let ?s = "initial_rtc ''P'' (Some ''H'')"
  let ?mx = "\<lparr>msg_from = ''X'', msg_to = ''P'', msg_type = offer, msg_data = ''sdp''\<rparr>"
  let ?mh = "\<lparr>msg_from = ''H'', msg_to = ''P'', msg_type = offer, msg_data = ''sdp''\<rparr>"
  have f: "\<not> isHost ?s" "Some ''X'' \<noteq> currentHostId ?s" "myUserId ?s = Some ''P''"
    "currentHostId ?s = Some ''H''"
    by (simp_all add: initial_rtc_def)
  have x: "onSignal quiet_engine ?mx ?s = ?s"
    using onSignal_offer_gate [where msg = ?mx and s = ?s and env = quiet_engine] f by simp
  have h: "onSignal quiet_engine ?mh ?s = snd (handleOffer quiet_engine ''H'' ?s)"
    using onSignal_offer_gate [where msg = ?mh and s = ?s and env = quiet_engine
                                     and me = "''P''"] f by simp
  have e: "effects (snd (handleOffer quiet_engine ''H'' ?s))
             = [PcCreated ''H'' 0, StateLog ''H'' answering connecting, Signal ''H'' answer]"
    by (simp add: handleOffer_def initial_rtc_def quiet_engine_def updatePeerState_def
          createPeerConnection_def sendSignal_def pending_of_def emit_def)
  from f x h e show ?thesis by blast
qed

subsection \<open>Order of the teardown\<close>

text \<open>
  C9 as the spec words it fails: the membership row goes before the signal bus is closed.
  \<open>U\<close> is a member of room \<open>R\<close> with presence joined and signaling open. The first
  step of disconnectFromRoom, leavePresence, calls leaveRoom itself: after it the row of
  \<open>U\<close> is gone while the channels of signaling are still set, and in the trace of the
  whole call the delete of the row comes before the unsubscription of the bus.
\<close>

theorem disconnect_membership_first_counterexample:
  "\<not> is_member (db (leavePresence False [] 
       \<lparr>db = \<lparr>rooms = [(''R'', \<lparr>room_name = ''r'', owner = Some ''H'', host_id = None\<rparr>)],
               room_members = [(''R'', ''H''), (''R'', ''U'')]\<rparr>,
        session = Some ''U'', channel = True, tracked = True, currentRoomId = Some ''R'',
        client = initial_rtc ''U'' (Some ''H''), trace = []\<rparr>)) ''R'' ''U'' \<and>
   sig_channel (client (leavePresence False []
       \<lparr>db = \<lparr>rooms = [(''R'', \<lparr>room_name = ''r'', owner = Some ''H'', host_id = None\<rparr>)],
               room_members = [(''R'', ''H''), (''R'', ''U'')]\<rparr>,
        session = Some ''U'', channel = True, tracked = True, currentRoomId = Some ''R'',
        client = initial_rtc ''U'' (Some ''H''), trace = []\<rparr>)) \<and>
   trace (snd (disconnectFromRoom False [] [] ''R''
       \<lparr>db = \<lparr>rooms = [(''R'', \<lparr>room_name = ''r'', owner = Some ''H'', host_id = None\<rparr>)],
               room_members = [(''R'', ''H''), (''R'', ''U'')]\<rparr>,
        session = Some ''U'', channel = True, tracked = True, currentRoomId = Some ''R'',
        client = initial_rtc ''U'' (Some ''H''), trace = []\<rparr>))
     = [PresenceUntrack, MembershipDelete ''R'' ''U'', PresenceUnsubscribe,
        SignalingUnsubscribe, MembersFeedUnsubscribe, MembershipDelete ''R'' ''U'']"
  by (simp add: disconnectFromRoom_def leavePresence_def leaveRoom_call_def
        closeSignaling_call_def cleanup_call_def closeSignaling_def cleanup_def
        initial_rtc_def leaveRoom_def is_member_def delete_member_def select_room_def
        eval_nat_numeral)

text \<open>
  C9, amended. disconnectFromRoom calls leavePresence, closeSignaling, cleanup and
  leaveRoom in that order. When presence is joined for a room, leavePresence untracks,
  then removes the caller's membership row through leaveRoom (with its host handoff), then
  unsubscribes the presence channel. So the calls leave the process in this order: untrack,
  delete of the membership row, presence unsubscribe, unsubscribe of the signal bus, close
  of every PeerConnection, unsubscribe of the membership feed, and the delete of the
  membership row once more.
\<close>

theorem disconnectFromRoom_order:
  assumes "channel w" "tracked w" "currentRoomId w = Some rid" "rid \<noteq> []"
    and "session w = Some uid"
  shows "fst (disconnectFromRoom ut fs1 fs2 roomId w) = None \<and>
         trace (snd (disconnectFromRoom ut fs1 fs2 roomId w)) =
           trace w @ [PresenceUntrack, MembershipDelete rid uid, PresenceUnsubscribe] @
           (if sig_channel (client w) then [SignalingUnsubscribe] else []) @
           map PeerClosed (map fst (peerConnections (client w))) @
           (if roomMembersChannel (client w) then [MembersFeedUnsubscribe] else []) @
           [MembershipDelete roomId uid] \<and>
         db (snd (disconnectFromRoom ut fs1 fs2 roomId w)) =
           leaveRoom fs2 roomId uid (leaveRoom fs1 rid uid (db w))"
  using assms
  by (simp add: disconnectFromRoom_def leavePresence_def leaveRoom_call_def
        closeSignaling_call_def cleanup_call_def closeSignaling_def Let_def)

theorem disconnectFromRoom_order_witness:
  "trace (snd (disconnectFromRoom False [] [] ''R''
       \<lparr>db = \<lparr>rooms = [(''R'', \<lparr>room_name = ''r'', owner = Some ''H'', host_id = None\<rparr>)],
               room_members = [(''R'', ''H''), (''R'', ''U'')]\<rparr>,
        session = Some ''U'', channel = True, tracked = True, currentRoomId = Some ''R'',
        client = (initial_rtc ''U'' (Some ''H''))
          \<lparr>peerConnections := [(''H'', \<lparr>pc = Some 0, dc = Some rs_open, state = connected,
                                        retryCount = 0, lastError = None\<rparr>)]\<rparr>,
        trace = []\<rparr>))
     = [PresenceUntrack, MembershipDelete ''R'' ''U'', PresenceUnsubscribe,
        SignalingUnsubscribe, PeerClosed ''H'', MembersFeedUnsubscribe,
        MembershipDelete ''R'' ''U'']"
proof -
  let ?w = "\<lparr>db = \<lparr>rooms = [(''R'', \<lparr>room_name = ''r'', owner = Some ''H'', host_id = None\<rparr>)],
               room_members = [(''R'', ''H''), (''R'', ''U'')]\<rparr>,
        session = Some ''U'', channel = True, tracked = True, currentRoomId = Some ''R'',
        client = (initial_rtc ''U'' (Some ''H''))
          \<lparr>peerConnections := [(''H'', \<lparr>pc = Some 0, dc = Some rs_open, state = connected,
                                        retryCount = 0, lastError = None\<rparr>)]\<rparr>,
        trace = []\<rparr>"
  have h: "channel ?w" "tracked ?w" "currentRoomId ?w = Some ''R''" "''R'' \<noteq> []"
    "session ?w = Some ''U''"
    by simp_all
  from disconnectFromRoom_order [OF h, of False "[]" "[]" "''R''"]
  show ?thesis by (simp add: initial_rtc_def)
qed

end
